theory Spec2Isabelle
  imports Main "HOL-Library.Log_Nat" "HOL-Library.Sublist"
begin

section \<open>Python values used by the bridge server\<close>

subsection \<open>Exceptions\<close>

text \<open>
  Every \<^verbatim>\<open>raise\<close> of \<^verbatim>\<open>bridge_server.py\<close> and of the built-ins it calls is a value.
  The handlers only ever look at \<^verbatim>\<open>str(e)\<close>, so each exception carries its message.
  \<open>OtherError\<close> stands for whatever the printer library, the socket layer or the file
  system raise.
\<close>

datatype py_exception =
    ValueError string
  | OverflowError string
  | ZeroDivisionError string
  | IndexError string
  | OtherError string

fun str_of :: "py_exception \<Rightarrow> string" where
  "str_of (ValueError m) = m"
| "str_of (OverflowError m) = m"
| "str_of (ZeroDivisionError m) = m"
| "str_of (IndexError m) = m"
| "str_of (OtherError m) = m"

subsection \<open>Floats: IEEE 754 binary64 with round-to-nearest-even\<close>

text \<open>
  A Python float is a binary64 value. A finite one is the rational it denotes; the two
  zeros are one value \<open>Fin 0\<close>, since the program only tests a float for truth, compares
  it with \<^verbatim>\<open>-1.0\<close>, multiplies it by a positive constant and truncates it, and none of
  these sees the sign of a zero.
\<close>

datatype pyfloat = Fin rat | PInf | NInf | NaN

definition pow2 :: "int \<Rightarrow> rat" where
  "pow2 i = (if 0 \<le> i then 2 ^ nat i else 1 / 2 ^ nat (- i))"

text \<open>\<open>ilog2 q\<close> is the binary exponent \<open>\<lfloor>log\<^sub>2 q\<rfloor>\<close> of a positive rational.\<close>

definition ilog2 :: "rat \<Rightarrow> int" where
  "ilog2 q = (case quotient_of q of (a, b) \<Rightarrow>
     (let d = bitlen a - bitlen b in if pow2 d \<le> q then d else d - 1))"

definition round_half_even :: "rat \<Rightarrow> int" where
  "round_half_even m =
     (let f = \<lfloor>m\<rfloor>; r = m - of_int f
      in if r < 1 / 2 then f
         else if 1 / 2 < r then f + 1
         else if even f then f else f + 1)"

text \<open>
  Rounding of an exact result to the 53-bit significand grid (the grid of the smallest
  normal exponent \<open>-1022\<close> below it, which gives the subnormals). The exponent is not
  bounded above here: the operations below turn a result of magnitude \<open>2^1024\<close> or more
  into an infinity or an \<^verbatim>\<open>OverflowError\<close>.
\<close>

definition round_double :: "rat \<Rightarrow> rat" where
  "round_double q =
     (if q = 0 then 0
      else let e = max (ilog2 \<bar>q\<bar>) (- 1022); ulp = pow2 (e - 52)
           in of_int (round_half_even (q / ulp)) * ulp)"

definition overflow_to_inf :: "rat \<Rightarrow> pyfloat" where
  "overflow_to_inf r =
     (if 2 ^ 1024 \<le> r then PInf else if r \<le> - (2 ^ 1024) then NInf else Fin r)"

text \<open>Float multiplication \<^verbatim>\<open>x * y\<close>.\<close>

fun fmul :: "pyfloat \<Rightarrow> pyfloat \<Rightarrow> pyfloat" where
  "fmul (Fin a) (Fin b) = overflow_to_inf (round_double (a * b))"
| "fmul NaN y = NaN"
| "fmul x NaN = NaN"
| "fmul PInf (Fin b) = (if b = 0 then NaN else if 0 < b then PInf else NInf)"
| "fmul NInf (Fin b) = (if b = 0 then NaN else if 0 < b then NInf else PInf)"
| "fmul (Fin a) PInf = (if a = 0 then NaN else if 0 < a then PInf else NInf)"
| "fmul (Fin a) NInf = (if a = 0 then NaN else if 0 < a then NInf else PInf)"
| "fmul PInf PInf = PInf"
| "fmul PInf NInf = NInf"
| "fmul NInf PInf = NInf"
| "fmul NInf NInf = PInf"

text \<open>The literal \<^verbatim>\<open>25.4\<close> is the double nearest to \<open>127/5\<close>.\<close>

definition float_25_4 :: pyfloat where
  "float_25_4 = Fin (round_double (127 / 5))"

text \<open>\<^verbatim>\<open>int(x)\<close> on a float truncates toward zero and raises on a non-finite value.\<close>

definition trunc_toward_zero :: "rat \<Rightarrow> int" where
  "trunc_toward_zero q = (if 0 \<le> q then \<lfloor>q\<rfloor> else \<lceil>q\<rceil>)"

fun py_int :: "pyfloat \<Rightarrow> py_exception + int" where
  "py_int (Fin q) = Inr (trunc_toward_zero q)"
| "py_int PInf = Inl (OverflowError ''cannot convert float infinity to integer'')"
| "py_int NInf = Inl (OverflowError ''cannot convert float infinity to integer'')"
| "py_int NaN = Inl (ValueError ''cannot convert float NaN to integer'')"

text \<open>
  \<^verbatim>\<open>a / b\<close> on two ints: the correctly rounded quotient, \<^verbatim>\<open>ZeroDivisionError\<close> on a zero
  divisor, \<^verbatim>\<open>OverflowError\<close> when the quotient is too large for a float.
\<close>

definition int_truediv :: "int \<Rightarrow> int \<Rightarrow> py_exception + pyfloat" where
  "int_truediv a b =
     (if b = 0 then Inl (ZeroDivisionError ''division by zero'')
      else let r = round_double (of_int a / of_int b)
           in if 2 ^ 1024 \<le> \<bar>r\<bar>
              then Inl (OverflowError ''integer division result too large for a float'')
              else Inr (Fin r))"

text \<open>Truth value of a float (\<^verbatim>\<open>nan\<close> and the infinities are true) and \<^verbatim>\<open>x != y\<close>.\<close>

fun float_truthy :: "pyfloat \<Rightarrow> bool" where
  "float_truthy (Fin q) = (q \<noteq> 0)"
| "float_truthy x = True"

fun float_ne :: "pyfloat \<Rightarrow> pyfloat \<Rightarrow> bool" where
  "float_ne (Fin a) (Fin b) = (a \<noteq> b)"
| "float_ne NaN y = True"
| "float_ne x NaN = True"
| "float_ne PInf PInf = False"
| "float_ne NInf NInf = False"
| "float_ne PInf NInf = True"
| "float_ne NInf PInf = True"
| "float_ne (Fin a) PInf = True"
| "float_ne (Fin a) NInf = True"
| "float_ne PInf (Fin b) = True"
| "float_ne NInf (Fin b) = True"

section \<open>Tape information of the printer status request\<close>

text \<open>
  Modelled from the spec: the classes of \<^verbatim>\<open>labelprinter.printer\<close> whose instances
  \<^verbatim>\<open>get_configuration()\<close> and \<^verbatim>\<open>get_status()\<close> return. The attribute names are the ones
  the handler reads (\<open>print_state_attr\<close> is its \<^verbatim>\<open>print_state\<close>); the spec gives the
  widths and lengths as floats in inches, the two of the configuration possibly absent (\<^verbatim>\<open>None\<close>).
\<close>

record printer_configuration =
  model :: string
  serial :: string
  tape_width :: "pyfloat option"
  tape_length_initial :: "pyfloat option"

record printer_status =
  print_state_attr :: string
  print_job_stage :: string
  print_job_error :: string
  tape_length_remaining :: pyfloat

record tape_info =
  present :: bool
  type_mm :: int
  total_mm :: int
  remaining_mm :: int
  percentage :: int

definition no_tape :: tape_info where
  "no_tape = \<lparr>present = False, type_mm = 0, total_mm = 0, remaining_mm = 0, percentage = 0\<rparr>"

text \<open>Truth value of an attribute that is a float or \<^verbatim>\<open>None\<close>.\<close>

fun truthy :: "pyfloat option \<Rightarrow> bool" where
  "truthy None = False"
| "truthy (Some x) = float_truthy x"

text \<open>
  \<^verbatim>\<open>int((remaining_mm / total_mm) * 100) if total_mm > 0 else 0\<close>; the int \<^verbatim>\<open>100\<close> is
  converted to the float \<^verbatim>\<open>100.0\<close> by the multiplication.
\<close>

definition percentage_of :: "int \<Rightarrow> int \<Rightarrow> py_exception + int" where
  "percentage_of rem_mm tot_mm =
     (if 0 < tot_mm
      then (case int_truediv rem_mm tot_mm of
              Inl e \<Rightarrow> Inl e
            | Inr d \<Rightarrow> py_int (fmul d (Fin 100)))
      else Inr 0)"

text \<open>
  The computation of \<^verbatim>\<open>tape_info\<close> in \<^verbatim>\<open>handle_printer_status_request\<close>: the dictionary
  starts as \<open>no_tape\<close> and is filled in the order of the source, so the first conversion
  that raises decides the exception.
\<close>

definition project_tape_info ::
  "printer_configuration \<Rightarrow> printer_status \<Rightarrow> py_exception + tape_info" where
  "project_tape_info config status =
     (if truthy (tape_width config) \<and> truthy (tape_length_initial config)
         \<and> float_ne (tape_length_remaining status) (Fin (- 1))
      then
        (case (tape_width config, tape_length_initial config) of
           (Some w, Some l) \<Rightarrow>
             (case py_int (fmul w float_25_4) of
                Inl e \<Rightarrow> Inl e
              | Inr ty \<Rightarrow>
                 (case py_int (fmul l float_25_4) of
                    Inl e \<Rightarrow> Inl e
                  | Inr tot_mm \<Rightarrow>
                     (case py_int (fmul (tape_length_remaining status) float_25_4) of
                        Inl e \<Rightarrow> Inl e
                      | Inr rem_mm \<Rightarrow>
                         (case percentage_of rem_mm tot_mm of
                            Inl e \<Rightarrow> Inl e
                          | Inr pct \<Rightarrow>
                             Inr \<lparr>present = True, type_mm = ty, total_mm = tot_mm,
                                   remaining_mm = rem_mm, percentage = pct\<rparr>))))
         | _ \<Rightarrow> Inr no_tape)
      else Inr no_tape)"

text \<open>
  The rule for \<open>present\<close> as the specification words it: width and initial length
  strictly positive, remaining length different from the sentinel.
\<close>

fun float_positive :: "pyfloat option \<Rightarrow> bool" where
  "float_positive (Some (Fin q)) = (0 < q)"
| "float_positive (Some PInf) = True"
| "float_positive x = False"

definition spec_present :: "printer_configuration \<Rightarrow> printer_status \<Rightarrow> bool" where
  "spec_present config status \<longleftrightarrow>
     float_positive (tape_width config) \<and> float_positive (tape_length_initial config)
     \<and> float_ne (tape_length_remaining status) (Fin (- 1))"

text \<open>A configuration and a status with given tape attributes, for the examples.\<close>

definition configuration_with :: "pyfloat option \<Rightarrow> pyfloat option \<Rightarrow> printer_configuration" where
  "configuration_with w l =
     \<lparr>model = ''VC-500W'', serial = ''A1'', tape_width = w, tape_length_initial = l\<rparr>"

definition status_with :: "pyfloat \<Rightarrow> printer_status" where
  "status_with r =
     \<lparr>print_state_attr = ''IDLE'', print_job_stage = ''READY'', print_job_error = ''NONE'',
      tape_length_remaining = r\<rparr>"

section \<open>Python strings and bytes\<close>

text \<open>
  A \<^verbatim>\<open>bytes\<close> object is a list of bytes. A \<^verbatim>\<open>str\<close> is a list of code points; the value of
  an HTTP header is a \<^verbatim>\<open>str\<close> whose code points are all below 256, because
  \<^verbatim>\<open>http.server\<close> decodes the header block as ISO-8859-1, so the content type is a list
  of \<open>char\<close>, one per code point.
\<close>

type_synonym bytes = "char list"
type_synonym pystr = "int list"

text \<open>An ASCII literal as a \<^verbatim>\<open>str\<close>.\<close>

definition text_of :: "string \<Rightarrow> pystr" where
  "text_of s = map of_char s"

definition CR :: char where "CR = CHR 0x0D"
definition LF :: char where "LF = CHR 0x0A"
definition DQUOTE :: char where "DQUOTE = CHR 0x22"

text \<open>\<^verbatim>\<open>s.find(sub)\<close>: the lowest index at which \<open>sub\<close> occurs in \<open>s\<close>.\<close>

fun find_sub :: "'a list \<Rightarrow> 'a list \<Rightarrow> nat option" where
  "find_sub sub [] = (if sub = [] then Some 0 else None)"
| "find_sub sub (x # xs) =
     (if prefix sub (x # xs) then Some 0 else map_option Suc (find_sub sub xs))"

text \<open>\<^verbatim>\<open>sub in s\<close>.\<close>

definition py_in :: "'a list \<Rightarrow> 'a list \<Rightarrow> bool" where
  "py_in sub s \<longleftrightarrow> find_sub sub s \<noteq> None"

text \<open>\<^verbatim>\<open>s.find(sub, start)\<close> for a start that is not negative; \<open>-1\<close> when there is none.\<close>

definition py_find :: "'a list \<Rightarrow> 'a list \<Rightarrow> nat \<Rightarrow> int" where
  "py_find s sub start =
     (if length s < start then - 1
      else case find_sub sub (drop start s) of
             None \<Rightarrow> - 1
           | Some i \<Rightarrow> int (start + i))"

text \<open>
  \<^verbatim>\<open>s[i:j]\<close>: a negative index counts from the end, and both are clipped to the length.
\<close>

definition slice_index :: "nat \<Rightarrow> int \<Rightarrow> nat" where
  "slice_index n k = (if k < 0 then nat (int n + k) else min (nat k) n)"

definition py_slice :: "'a list \<Rightarrow> int \<Rightarrow> int \<Rightarrow> 'a list" where
  "py_slice s i j =
     (let a = slice_index (length s) i; b = slice_index (length s) j
      in take (b - a) (drop a s))"

text \<open>
  \<^verbatim>\<open>s.split(sep)\<close> for a separator that is not empty: the pieces between the occurrences
  of \<open>sep\<close>, found from the left without overlap.
\<close>

function split_on :: "'a list \<Rightarrow> 'a list \<Rightarrow> 'a list list" where
  "split_on sep s =
     (case find_sub sep s of
        None \<Rightarrow> [s]
      | Some i \<Rightarrow>
          if sep = [] then [s]
          else take i s # split_on sep (drop (i + length sep) s))"
  by pat_completeness auto
termination
proof (relation "measure (\<lambda>(sep, s). length s)")
  show "wf (measure (\<lambda>(sep :: 'a list, s :: 'a list). length s))" by simp
next
  fix sep s :: "'a list" and i
  assume found: "find_sub sep s = Some i" and sep: "sep \<noteq> []"
  have "find_sub sep t = Some k \<Longrightarrow> k + length sep \<le> length t" for t k
  proof (induction t arbitrary: k)
    case Nil
    then show ?case by (simp split: if_splits)
  next
    case (Cons x t)
    then show ?case by (auto dest: prefix_length_le split: if_splits)
  qed
  from this [OF found] sep
  show "((sep, drop (i + length sep) s), (sep, s)) \<in> measure (\<lambda>(sep, s). length s)"
    by (cases sep) auto
qed

declare split_on.simps [simp del]

text \<open>\<^verbatim>\<open>s.split(sep)\<close> raises \<^verbatim>\<open>ValueError\<close> on an empty separator.\<close>

definition py_split :: "'a list \<Rightarrow> 'a list \<Rightarrow> py_exception + 'a list list" where
  "py_split sep s =
     (if sep = [] then Inl (ValueError ''empty separator'') else Inr (split_on sep s))"

text \<open>\<^verbatim>\<open>xs[i]\<close> for an index that is not negative.\<close>

definition py_index :: "'a list \<Rightarrow> nat \<Rightarrow> py_exception + 'a" where
  "py_index xs i =
     (if i < length xs then Inr (xs ! i) else Inl (IndexError ''list index out of range''))"

text \<open>
  \<^verbatim>\<open>s.strip()\<close> removes the white space at both ends; \<^verbatim>\<open>s.rstrip(chars)\<close> removes from the
  right end every element that occurs in \<open>chars\<close>, however many there are.
\<close>

definition py_strip :: "('a \<Rightarrow> bool) \<Rightarrow> 'a list \<Rightarrow> 'a list" where
  "py_strip space s = rev (dropWhile space (rev (dropWhile space s)))"

definition py_rstrip :: "'a list \<Rightarrow> 'a list \<Rightarrow> 'a list" where
  "py_rstrip chars s = rev (dropWhile (\<lambda>c. List.member chars c) (rev s))"

text \<open>White space of \<^verbatim>\<open>str.strip\<close> among the code points below 256, and of \<^verbatim>\<open>bytes.strip\<close>.\<close>

definition str_isspace :: "char \<Rightarrow> bool" where
  "str_isspace c \<longleftrightarrow>
     List.member [9, 10, 11, 12, 13, 28, 29, 30, 31, 32, 133, 160] (of_char c :: int)"

definition bytes_isspace :: "char \<Rightarrow> bool" where
  "bytes_isspace c \<longleftrightarrow> List.member [9, 10, 11, 12, 13, 32] (of_char c :: int)"

text \<open>\<^verbatim>\<open>s.encode()\<close>: UTF-8 of a \<^verbatim>\<open>str\<close> whose code points are below 256.\<close>

definition encode_char :: "char \<Rightarrow> bytes" where
  "encode_char c =
     (let n = of_char c :: int
      in if n < 128 then [c] else [char_of (192 + n div 64), char_of (128 + n mod 64)])"

definition encode :: "string \<Rightarrow> bytes" where
  "encode s = concat (map encode_char s)"

text \<open>
  \<^verbatim>\<open>b.decode('utf-8', errors='ignore')\<close>. One step looks at the next bytes and gives
  the code point of a well-formed sequence, if there is one, and the number of bytes
  it consumes: at an ill-formed sequence the bytes before the first offending byte are
  dropped (one byte for a bad lead byte or a bad second byte), and a sequence cut off by
  the end of the input is dropped.
\<close>

definition is_continuation :: "int \<Rightarrow> bool" where
  "is_continuation b \<longleftrightarrow> 128 \<le> b \<and> b < 192"

definition second_ok :: "int \<Rightarrow> int \<Rightarrow> bool" where
  "second_ok b0 b1 \<longleftrightarrow>
     is_continuation b1
     \<and> \<not> (b0 = 224 \<and> b1 < 160) \<and> \<not> (b0 = 237 \<and> 160 \<le> b1)
     \<and> \<not> (b0 = 240 \<and> b1 < 144) \<and> \<not> (b0 = 244 \<and> 144 \<le> b1)"

definition decode_step :: "bytes \<Rightarrow> int option \<times> nat" where
  "decode_step bs =
     (case map of_char (take 4 bs) of
        [] \<Rightarrow> (None, 0)
      | b0 # r0 \<Rightarrow>
          if b0 < 128 then (Some b0, 1)
          else if b0 < 194 \<or> 245 \<le> b0 then (None, 1)
          else
            (case r0 of
               [] \<Rightarrow> (None, 1)
             | b1 # r1 \<Rightarrow>
                 if \<not> second_ok b0 b1 then (None, 1)
                 else if b0 < 224 then (Some (b0 mod 32 * 64 + b1 mod 64), 2)
                 else
                   (case r1 of
                      [] \<Rightarrow> (None, 2)
                    | b2 # r2 \<Rightarrow>
                        if \<not> is_continuation b2 then (None, 2)
                        else if b0 < 240
                        then (Some (b0 mod 16 * 4096 + b1 mod 64 * 64 + b2 mod 64), 3)
                        else
                          (case r2 of
                             [] \<Rightarrow> (None, 3)
                           | b3 # r3 \<Rightarrow>
                               if \<not> is_continuation b3 then (None, 3)
                               else (Some (b0 mod 8 * 262144 + b1 mod 64 * 4096
                                             + b2 mod 64 * 64 + b3 mod 64), 4)))))"

text \<open>
  The decoder proper: \<open>decode_from k bs\<close> first passes over \<open>k\<close> bytes that the previous
  step has consumed.
\<close>

fun decode_from :: "nat \<Rightarrow> bytes \<Rightarrow> pystr" where
  "decode_from k [] = []"
| "decode_from (Suc k) (c # bs) = decode_from k bs"
| "decode_from 0 (c # bs) =
     (case decode_step (c # bs) of
        (None, n) \<Rightarrow> decode_from (n - 1) bs
      | (Some cp, n) \<Rightarrow> cp # decode_from (n - 1) bs)"

definition decode_utf8_ignore :: "bytes \<Rightarrow> pystr" where
  "decode_utf8_ignore bs = decode_from 0 bs"

text \<open>
  \<^verbatim>\<open>s.lower()\<close>. It is exact on every code point whose lower case contains an ASCII
  character: the letters A to Z, U+0130 (which becomes \<^verbatim>\<open>i\<close> and U+0307) and U+212A (which
  becomes \<^verbatim>\<open>k\<close>). Python maps every other code point to code points outside ASCII; they
  are left as they are here, since the only use of the result is a comparison with an
  ASCII literal.
\<close>

definition lower_code_point :: "int \<Rightarrow> pystr" where
  "lower_code_point n =
     (if 65 \<le> n \<and> n \<le> 90 then [n + 32]
      else if n = 304 then [105, 775]
      else if n = 8490 then [107]
      else [n])"

definition py_lower :: "pystr \<Rightarrow> pystr" where
  "py_lower s = concat (map lower_code_point s)"

section \<open>The multipart decoder\<close>

text \<open>The markers that \<^verbatim>\<open>parse_multipart_form_data\<close> searches a header line for.\<close>

definition crlf :: bytes where
  "crlf = [CR, LF]"

definition marker_name :: pystr where
  "marker_name = text_of ''name='' @ [34]"

definition marker_filename :: pystr where
  "marker_filename = text_of ''filename='' @ [34]"

record file_part =
  filename :: pystr
  content :: bytes

type_synonym form_data = "pystr \<rightharpoonup> pystr"
type_synonym files = "pystr \<rightharpoonup> file_part"

text \<open>
  The body of the loop over the header lines: \<open>name\<close> and \<open>filename\<close> start as \<^verbatim>\<open>None\<close>
  and are assigned by every \<^verbatim>\<open>Content-Disposition\<close> line that holds the marker, so the
  last such line decides. The text between the marker and the next quote is
  \<^verbatim>\<open>line[start:end]\<close>, where \<^verbatim>\<open>end\<close> is \<open>-1\<close> when no quote follows.
\<close>

definition disposition_step ::
  "pystr option \<times> pystr option \<Rightarrow> pystr \<Rightarrow> pystr option \<times> pystr option" where
  "disposition_step st line =
     (case st of (name, fname) \<Rightarrow>
        if prefix (text_of ''content-disposition:'') (py_lower line)
        then
          (let name' =
                 (if py_in marker_name line
                  then (let start = py_find line marker_name 0 + 6;
                            stop = py_find line [34] (nat start)
                        in Some (py_slice line start stop))
                  else name);
               fname' =
                 (if py_in marker_filename line
                  then (let start = py_find line marker_filename 0 + 10;
                            stop = py_find line [34] (nat start)
                        in Some (py_slice line start stop))
                  else fname)
           in (name', fname'))
        else (name, fname))"

definition parse_headers :: "pystr \<Rightarrow> pystr option \<times> pystr option" where
  "parse_headers headers_text =
     foldl disposition_step (None, None) (split_on [13, 10] headers_text)"

text \<open>\<^verbatim>\<open>if name:\<close> holds for a \<^verbatim>\<open>str\<close> that is neither \<^verbatim>\<open>None\<close> nor empty.\<close>

definition if_truthy :: "pystr option \<Rightarrow> pystr option" where
  "if_truthy x = (case x of None \<Rightarrow> None | Some s \<Rightarrow> if s = [] then None else Some s)"

text \<open>The body of the loop over the parts.\<close>

definition parse_part :: "form_data \<times> files \<Rightarrow> bytes \<Rightarrow> form_data \<times> files" where
  "parse_part st part =
     (case st of (form, fls) \<Rightarrow>
        if py_strip bytes_isspace part = [] then st
        else
          (case find_sub (crlf @ crlf) part of
             None \<Rightarrow> st
           | Some i \<Rightarrow>
               (let headers_data = take i part;
                    content0 = drop (i + 4) part;
                    headers_text = decode_utf8_ignore headers_data
                in case parse_headers headers_text of (name, fname) \<Rightarrow>
                     (case if_truthy name of
                        None \<Rightarrow> st
                      | Some n \<Rightarrow>
                          (let content1 = py_rstrip crlf content0
                           in case if_truthy fname of
                                Some f \<Rightarrow> (form, fls(n \<mapsto> \<lparr>filename = f, content = content1\<rparr>))
                              | None \<Rightarrow> (form(n \<mapsto> decode_utf8_ignore content1), fls))))))"

text \<open>The first lines of the function: the boundary named by the content type.\<close>

definition extract_boundary :: "string \<Rightarrow> py_exception + string" where
  "extract_boundary content_type =
     (if \<not> py_in ''boundary='' content_type
      then Inl (ValueError ''No boundary found in content type'')
      else
        (case py_index (split_on ''boundary='' content_type) 1 of
           Inl e \<Rightarrow> Inl e
         | Inr b0 \<Rightarrow>
             (let boundary = py_strip str_isspace b0
              in if prefix [DQUOTE] boundary \<and> suffix [DQUOTE] boundary
                 then Inr (py_slice boundary 1 (- 1))
                 else Inr boundary)))"

definition parse_multipart_form_data ::
  "string \<Rightarrow> bytes \<Rightarrow> py_exception + form_data \<times> files" where
  "parse_multipart_form_data content_type body =
     (case extract_boundary content_type of
        Inl e \<Rightarrow> Inl e
      | Inr boundary \<Rightarrow>
          (case py_split (encode (''--'' @ boundary)) body of
             Inl e \<Rightarrow> Inl e
           | Inr parts \<Rightarrow>
               Inr (foldl parse_part (Map.empty, Map.empty) (py_slice parts 1 (- 1)))))"

text \<open>What a decoded form holds under a name.\<close>

definition decoded_field :: "py_exception + form_data \<times> files \<Rightarrow> pystr \<Rightarrow> pystr option" where
  "decoded_field r k = (case r of Inl e \<Rightarrow> None | Inr (form, fls) \<Rightarrow> form k)"

definition decoded_file :: "py_exception + form_data \<times> files \<Rightarrow> pystr \<Rightarrow> file_part option" where
  "decoded_file r k = (case r of Inl e \<Rightarrow> None | Inr (form, fls) \<Rightarrow> fls k)"

text \<open>
  For the examples: a part as a client frames it, with the attributes of its
  \<^verbatim>\<open>Content-Disposition\<close> header and its payload, and a request body that holds this one
  part between the delimiter \<^verbatim>\<open>--X\<close> and the closing delimiter.
\<close>

definition part_with :: "bytes \<Rightarrow> bytes \<Rightarrow> bytes" where
  "part_with disposition payload =
     crlf @ ''Content-Disposition: form-data; '' @ disposition @ crlf @ crlf @ payload @ crlf"

definition one_part_body :: "bytes \<Rightarrow> bytes \<Rightarrow> bytes" where
  "one_part_body disposition payload = ''--X'' @ part_with disposition payload @ ''--X--'' @ crlf"

definition quoted :: "bytes \<Rightarrow> bytes" where
  "quoted s = [DQUOTE] @ s @ [DQUOTE]"


section \<open>The request handlers\<close>

text \<open>
  What a handler does to the world outside is a list of events, in the order of the
  calls: each call of the printer library, of the file system and of the response
  writer is logged when it is made, whether it then returns or raises.
\<close>

datatype event =
    Connect pystr
  | GetConfiguration
  | GetStatus
  | PrintJpeg bytes pystr pystr
  | Close
  | CreateTemp
  | WriteTemp bytes
  | OpenTemp
  | Unlink
  | SendSuccess

record run_state =
  trace :: "event list"
  temp_exists :: bool

definition initial_state :: run_state where
  "initial_state = \<lparr>trace = [], temp_exists = False\<rparr>"

text \<open>
  The results of the calls of one run: \<open>Inl e\<close> when the call raises \<open>e\<close>. They are the
  parameters of the model, since the printer, the file system and the client decide them.
\<close>

record outcomes =
  connect_result :: "py_exception + unit"
  get_configuration_result :: "py_exception + printer_configuration"
  get_status_result :: "py_exception + printer_status"
  print_jpeg_result :: "py_exception + unit"
  close_result :: "py_exception + unit"
  content_length_result :: "py_exception + nat"
  read_body_result :: "py_exception + bytes"
  create_temp_result :: "py_exception + unit"
  write_temp_result :: "py_exception + unit"
  open_temp_result :: "py_exception + unit"
  unlink_result :: "py_exception + unit"
  send_result :: "py_exception + unit"

type_synonym 'a action = "run_state \<Rightarrow> (py_exception + 'a) \<times> run_state"

definition call :: "event \<Rightarrow> py_exception + 'a \<Rightarrow> 'a action" where
  "call e r s = (r, s\<lparr>trace := trace s @ [e]\<rparr>)"

definition returns :: "'a \<Rightarrow> 'a action" where
  "returns x s = (Inr x, s)"

definition raises :: "py_exception \<Rightarrow> 'a action" where
  "raises e s = (Inl e, s)"

definition computes :: "py_exception + 'a \<Rightarrow> 'a action" where
  "computes r s = (r, s)"

text \<open>Sequencing: an exception ends the block.\<close>

definition then_do :: "'a action \<Rightarrow> ('a \<Rightarrow> 'b action) \<Rightarrow> 'b action" where
  "then_do m f s =
     (case m s of
        (Inl e, s') \<Rightarrow> (Inl e, s')
      | (Inr x, s') \<Rightarrow> f x s')"

datatype response =
    StatusOK string string string string string tape_info
  | StatusFailed string tape_info
  | PrintOK string
  | PrintFailed string

fun status_code :: "response \<Rightarrow> nat" where
  "status_code (StatusOK m sn st stage err tape) = 200"
| "status_code (StatusFailed msg tape) = 500"
| "status_code (PrintOK st) = 200"
| "status_code (PrintFailed msg) = 500"

definition default_ip :: pystr where
  "default_ip = text_of ''192.168.178.120''"

subsection \<open>\<^verbatim>\<open>handle_printer_status_request\<close>\<close>

text \<open>
  The \<^verbatim>\<open>try\<close> block. \<open>ip_param\<close> is the value of the query parameter \<^verbatim>\<open>ip\<close>, \<open>None\<close>
  when \<^verbatim>\<open>parse_qs\<close> finds none. \<^verbatim>\<open>LabelPrinter(connection)\<close> only stores the connection.
\<close>

definition printer_status_try :: "outcomes \<Rightarrow> pystr option \<Rightarrow> response action" where
  "printer_status_try w ip_param =
     (let printer_ip = (case ip_param of None \<Rightarrow> default_ip | Some ip \<Rightarrow> ip)
      in then_do (call (Connect printer_ip) (connect_result w)) (\<lambda>_.
         then_do (call GetConfiguration (get_configuration_result w)) (\<lambda>config.
         then_do (call GetStatus (get_status_result w)) (\<lambda>status.
         then_do (call Close (close_result w)) (\<lambda>_.
         then_do (computes (project_tape_info config status)) (\<lambda>tape.
         then_do (call SendSuccess (send_result w)) (\<lambda>_.
         returns (StatusOK (model config) (serial config) (print_state_attr status)
                    (print_job_stage status) (print_job_error status) tape))))))))"

text \<open>The handler: \<^verbatim>\<open>except Exception as e\<close> turns every exception into the error response.\<close>

definition handle_printer_status_request ::
  "outcomes \<Rightarrow> pystr option \<Rightarrow> run_state \<Rightarrow> response \<times> run_state" where
  "handle_printer_status_request w ip_param s =
     (case printer_status_try w ip_param s of
        (Inl e, s') \<Rightarrow> (StatusFailed (str_of e) no_tape, s')
      | (Inr r, s') \<Rightarrow> (r, s'))"

subsection \<open>\<^verbatim>\<open>handle_print_request\<close>\<close>

text \<open>
  The inner \<^verbatim>\<open>try\<close> block: the image is read back from the temporary file, so
  \<^verbatim>\<open>print_jpeg\<close> gets the bytes that were written to it.
\<close>

definition print_try :: "outcomes \<Rightarrow> pystr \<Rightarrow> pystr \<Rightarrow> pystr \<Rightarrow> bytes \<Rightarrow> response action" where
  "print_try w printer_ip mode cut_mode image_data =
     then_do (call (Connect printer_ip) (connect_result w)) (\<lambda>_.
     then_do (call GetStatus (get_status_result w)) (\<lambda>status.
     then_do (call OpenTemp (open_temp_result w)) (\<lambda>_.
     then_do (call (PrintJpeg image_data mode cut_mode) (print_jpeg_result w)) (\<lambda>_.
     then_do (call Close (close_result w)) (\<lambda>_.
     then_do (call SendSuccess (send_result w)) (\<lambda>_.
     returns (PrintOK (print_state_attr status))))))))"

text \<open>
  \<^verbatim>\<open>finally: try: os.unlink(temp_filename) except: pass\<close>. The block's own result, value
  or exception, goes on unchanged; the file is gone when \<^verbatim>\<open>unlink\<close> returns.
\<close>

definition finally_unlink :: "outcomes \<Rightarrow> 'a action \<Rightarrow> 'a action" where
  "finally_unlink w m s =
     (case m s of
        (r, s') \<Rightarrow>
          (r, s'\<lparr>trace := trace s' @ [Unlink],
                 temp_exists := (case unlink_result w of
                                   Inl e \<Rightarrow> temp_exists s'
                                 | Inr u \<Rightarrow> False)\<rparr>))"

text \<open>
  \<^verbatim>\<open>with tempfile.NamedTemporaryFile(suffix='.jpg', delete=False) as temp_file\<close>: the file
  exists once it is created, and stays when the write raises.
\<close>

definition create_temp :: "outcomes \<Rightarrow> unit action" where
  "create_temp w s =
     (case call CreateTemp (create_temp_result w) s of
        (Inl e, s') \<Rightarrow> (Inl e, s')
      | (Inr u, s') \<Rightarrow> (Inr u, s'\<lparr>temp_exists := True\<rparr>))"

definition dict_get :: "('k \<rightharpoonup> 'v) \<Rightarrow> 'k \<Rightarrow> 'v \<Rightarrow> 'v" where
  "dict_get d k dflt = (case d k of None \<Rightarrow> dflt | Some v \<Rightarrow> v)"

text \<open>
  The outer \<^verbatim>\<open>try\<close> block. \<open>content_length_result\<close> is the result of
  \<^verbatim>\<open>int(self.headers.get('content-length', 0))\<close>, which comes before the test of the
  content type, and \<open>read_body_result\<close> is the result of \<^verbatim>\<open>self.rfile.read(content_length)\<close>.
\<close>

definition print_request_try :: "outcomes \<Rightarrow> string \<Rightarrow> response action" where
  "print_request_try w ctype =
     then_do (computes (content_length_result w)) (\<lambda>content_length.
       if \<not> prefix ''multipart/form-data'' ctype
       then raises (ValueError ''Expected multipart/form-data'')
       else
         then_do (computes (read_body_result w)) (\<lambda>body.
         then_do (computes (parse_multipart_form_data ctype body)) (\<lambda>(form, fls).
           (let printer_ip = dict_get form (text_of ''printer_ip'') default_ip;
                mode = dict_get form (text_of ''mode'') (text_of ''vivid'');
                cut_mode = dict_get form (text_of ''cut'') (text_of ''full'')
            in case fls (text_of ''image'') of
                 None \<Rightarrow> raises (ValueError ''No image file provided'')
               | Some image_file \<Rightarrow>
                   then_do (create_temp w) (\<lambda>_.
                   then_do (call (WriteTemp (content image_file)) (write_temp_result w)) (\<lambda>_.
                   finally_unlink w (print_try w printer_ip mode cut_mode (content image_file))))))))"

definition handle_print_request ::
  "outcomes \<Rightarrow> string \<Rightarrow> run_state \<Rightarrow> response \<times> run_state" where
  "handle_print_request w ctype s =
     (case print_request_try w ctype s of
        (Inl e, s') \<Rightarrow> (PrintFailed (str_of e), s')
      | (Inr r, s') \<Rightarrow> (r, s'))"

text \<open>For the examples: a run in which every call returns.\<close>

definition all_return :: outcomes where
  "all_return =
     \<lparr>connect_result = Inr (),
      get_configuration_result = Inr (configuration_with (Some (Fin 1)) (Some (Fin 10))),
      get_status_result = Inr (status_with (Fin 5)),
      print_jpeg_result = Inr (),
      close_result = Inr (),
      content_length_result = Inr 0,
      read_body_result = Inr [],
      create_temp_result = Inr (),
      write_temp_result = Inr (),
      open_temp_result = Inr (),
      unlink_result = Inr (),
      send_result = Inr ()\<rparr>"

text \<open>
  A print request: printer 10.0.0.5, mode \<^verbatim>\<open>pastel\<close>, cut \<^verbatim>\<open>each\<close> and an image of three
  bytes; and the run in which this body is read, \<^verbatim>\<open>print_jpeg\<close> raises and every other
  call returns.
\<close>

definition print_body :: bytes where
  "print_body =
     ''--X'' @ part_with (''name='' @ quoted ''printer_ip'') ''10.0.0.5''
     @ ''--X'' @ part_with (''name='' @ quoted ''mode'') ''pastel''
     @ ''--X'' @ part_with (''name='' @ quoted ''cut'') ''each''
     @ ''--X'' @ part_with (''name='' @ quoted ''image'' @ ''; filename='' @ quoted ''a.jpg'')
                   [CHR 0xFF, CHR 0xD8, CHR 0xD9]
     @ ''--X--'' @ crlf"

definition print_fails :: outcomes where
  "print_fails =
     all_return\<lparr>content_length_result := Inr (length print_body),
                read_body_result := Inr print_body,
                print_jpeg_result := Inl (OtherError ''printer offline'')\<rparr>"

section \<open>Facts about the float model\<close>

lemma pow2_pos: "0 < pow2 i"
  by (simp add: pow2_def)

lemma pow2_eq_powi: "pow2 i = 2 powi i"
  by (simp add: pow2_def power_int_def field_simps)

lemma pow2_add: "pow2 (i + j) = pow2 i * pow2 j"
  by (simp add: pow2_eq_powi power_int_add)

lemma pow2_mono: "i \<le> j \<Longrightarrow> pow2 i \<le> pow2 j"
  by (simp add: pow2_eq_powi power_int_increasing)

lemma pow2_le_less_imp: "pow2 i \<le> q \<Longrightarrow> q < pow2 j \<Longrightarrow> i < j"
  using pow2_mono [of j i] by (cases "i < j") auto

lemma round_half_even_le:
  assumes "m \<le> of_int n"
  shows "round_half_even m \<le> n"
proof (cases "m - of_int \<lfloor>m\<rfloor> < 1 / 2")
  case True
  have "\<lfloor>m\<rfloor> \<le> n" using assms by (simp add: floor_le_iff)
  with True show ?thesis by (simp add: round_half_even_def)
next
  case False
  then have "of_int \<lfloor>m\<rfloor> < (of_int n :: rat)" using assms by linarith
  then have "\<lfloor>m\<rfloor> + 1 \<le> n" by simp
  then show ?thesis by (simp add: round_half_even_def Let_def)
qed

lemma round_half_even_ge:
  assumes "of_int n \<le> m"
  shows "n \<le> round_half_even m"
proof -
  have "n \<le> \<lfloor>m\<rfloor>" using assms by (simp add: le_floor_iff)
  then show ?thesis by (simp add: round_half_even_def Let_def)
qed

lemma ilog2_le:
  assumes "0 < q"
  shows "pow2 (ilog2 q) \<le> q"
proof -
  obtain a b where ab: "quotient_of q = (a, b)" by force
  have b: "0 < b" using ab by (rule quotient_of_denom_pos)
  have q: "q = of_int a / of_int b" using ab by (rule quotient_of_div)
  have a: "0 < a" using assms b q by (simp add: zero_less_divide_iff)
  define d where "d = bitlen a - bitlen b"
  have la: "(2::rat) ^ nat (bitlen a - 1) \<le> of_int a"
  proof -
    have "(2::int) ^ nat (bitlen a - 1) \<le> a" using bitlen_bounds [OF a] by simp
    then have "of_int ((2::int) ^ nat (bitlen a - 1)) \<le> (of_int a :: rat)"
      by (simp only: of_int_le_iff)
    then show ?thesis by simp
  qed
  have ub: "of_int b < (2::rat) ^ nat (bitlen b)"
  proof -
    have "b < (2::int) ^ nat (bitlen b)" using bitlen_bounds [OF b] by simp
    then have "(of_int b :: rat) < of_int ((2::int) ^ nat (bitlen b))"
      by (simp only: of_int_less_iff)
    then show ?thesis by simp
  qed
  have ba1: "1 \<le> bitlen a" using a by (simp add: bitlen_alt_def)
  have bb0: "0 \<le> bitlen b" by (rule bitlen_nonneg)
  have la': "pow2 (bitlen a - 1) \<le> of_int a" using la ba1 by (simp add: pow2_def)
  have ub': "of_int b < pow2 (bitlen b)" using ub bb0 by (simp add: pow2_def)
  have "pow2 (d - 1) * pow2 (bitlen b) = pow2 (bitlen a - 1)"
    by (simp add: d_def pow2_add [symmetric])
  then have "pow2 (d - 1) * of_int b \<le> of_int a"
    using la' ub' pow2_pos [of "d - 1"]
    by (smt (verit) mult_le_cancel_left_pos order_less_imp_le order_trans)
  then have low: "pow2 (d - 1) \<le> q" using b by (simp add: q pos_le_divide_eq)
  show ?thesis using low ab by (simp add: ilog2_def d_def Let_def)
qed

lemma round_double_nonneg: "0 \<le> q \<Longrightarrow> 0 \<le> round_double q"
  using round_half_even_ge [of 0] pow2_pos
  by (simp add: round_double_def Let_def less_imp_le)

text \<open>Rounding never crosses an integer that lies on the grid of the rounded value.\<close>

lemma round_double_le_int:
  assumes "0 \<le> q" and "q \<le> of_int k" and "q < pow2 53"
  shows "round_double q \<le> of_int k"
proof (cases "q = 0")
  case True
  then show ?thesis using assms by (simp add: round_double_def)
next
  case False
  then have pos: "0 < q" using assms by simp
  define e where "e = max (ilog2 \<bar>q\<bar>) (- 1022)"
  have "pow2 (ilog2 q) \<le> q" using pos by (rule ilog2_le)
  then have "ilog2 q < 53" using assms(3) by (rule pow2_le_less_imp)
  then have e: "e - 52 \<le> 0" using pos by (simp add: e_def)
  define j where "j = nat (52 - e)"
  have ulp: "pow2 (e - 52) = 1 / 2 ^ j" using e by (auto simp: pow2_def j_def)
  have "q / pow2 (e - 52) = q * 2 ^ j" by (simp add: ulp)
  also have "\<dots> \<le> of_int k * 2 ^ j" using assms by simp
  also have "\<dots> = of_int (k * 2 ^ j)" by simp
  finally have "round_half_even (q / pow2 (e - 52)) \<le> k * 2 ^ j"
    by (rule round_half_even_le)
  then have "(of_int (round_half_even (q / pow2 (e - 52))) :: rat) \<le> of_int (k * 2 ^ j)"
    by (simp only: of_int_le_iff)
  then have "of_int (round_half_even (q / pow2 (e - 52))) * pow2 (e - 52) \<le> of_int k"
    by (simp add: ulp field_simps)
  then show ?thesis using False by (simp add: round_double_def Let_def e_def)
qed

section \<open>Facts about the tape information\<close>

lemma py_int_Inr: "py_int x = Inr n \<Longrightarrow> \<exists>q. x = Fin q \<and> n = trunc_toward_zero q"
  by (cases x) auto

lemma py_int_no_zero_division: "py_int x \<noteq> Inl (ZeroDivisionError m)"
  by (cases x) auto

lemma overflow_to_inf_Fin: "overflow_to_inf r = Fin q \<Longrightarrow> q = r"
  by (auto simp: overflow_to_inf_def split: if_splits)

lemma percentage_of_pos:
  assumes "percentage_of r t = Inr p" and "0 < t"
  shows "p = trunc_toward_zero (round_double (round_double (of_int r / of_int t) * 100))"
proof -
  from assms obtain d where d: "int_truediv r t = Inr d" and p: "py_int (fmul d (Fin 100)) = Inr p"
    by (auto simp: percentage_of_def split: sum.splits)
  from d assms(2) have d': "d = Fin (round_double (of_int r / of_int t))"
    by (auto simp: int_truediv_def Let_def split: if_splits)
  from p obtain q where q: "fmul d (Fin 100) = Fin q" and pq: "p = trunc_toward_zero q"
    by (auto dest: py_int_Inr)
  from q d' have "q = round_double (round_double (of_int r / of_int t) * 100)"
    by (auto dest: overflow_to_inf_Fin)
  with pq show ?thesis by simp
qed

lemma percentage_of_nonpos: "t \<le> 0 \<Longrightarrow> percentage_of r t = Inr 0"
  by (simp add: percentage_of_def)

lemma percentage_of_no_zero_division: "percentage_of r t \<noteq> Inl (ZeroDivisionError m)"
  by (auto simp: percentage_of_def int_truediv_def Let_def py_int_no_zero_division
      split: sum.splits if_splits)

lemma project_absent:
  assumes "\<not> (truthy (tape_width c) \<and> truthy (tape_length_initial c)
      \<and> float_ne (tape_length_remaining s) (Fin (- 1)))"
  shows "project_tape_info c s = Inr no_tape"
  using assms by (auto simp: project_tape_info_def)

lemma project_present:
  assumes "project_tape_info c s = Inr t"
    and "truthy (tape_width c) \<and> truthy (tape_length_initial c)
      \<and> float_ne (tape_length_remaining s) (Fin (- 1))"
  shows "\<exists>w l. tape_width c = Some w \<and> tape_length_initial c = Some l
     \<and> present t
     \<and> py_int (fmul w float_25_4) = Inr (type_mm t)
     \<and> py_int (fmul l float_25_4) = Inr (total_mm t)
     \<and> py_int (fmul (tape_length_remaining s) float_25_4) = Inr (remaining_mm t)
     \<and> percentage_of (remaining_mm t) (total_mm t) = Inr (percentage t)"
  using assms
  by (cases "tape_width c"; cases "tape_length_initial c")
     (auto simp: project_tape_info_def split: sum.splits)

lemma project_no_zero_division: "project_tape_info c s \<noteq> Inl (ZeroDivisionError m)"
  by (auto simp: project_tape_info_def py_int_no_zero_division percentage_of_no_zero_division
      split: sum.splits option.splits)

lemma float_truthy_iff: "float_truthy x \<longleftrightarrow> x \<noteq> Fin 0"
  by (cases x) auto

lemma truthy_iff: "truthy x \<longleftrightarrow> x \<notin> {None, Some (Fin 0)}"
  by (cases x) (auto simp: float_truthy_iff)

lemma float_ne_Fin_iff: "float_ne x (Fin q) \<longleftrightarrow> x \<noteq> Fin q"
  by (cases x) auto

lemma trunc_nonneg: "0 \<le> q \<Longrightarrow> trunc_toward_zero q = \<lfloor>q\<rfloor>"
  by (simp add: trunc_toward_zero_def)

lemma percentage_of_bounds:
  assumes "percentage_of r t = Inr p" and "0 \<le> r" and "r \<le> t"
  shows "0 \<le> p \<and> p \<le> 100"
proof (cases "0 < t")
  case False
  then show ?thesis using assms by (simp add: percentage_of_def)
next
  case True
  define x where "x = round_double (of_int r / of_int t)"
  define y where "y = round_double (x * 100)"
  have p: "p = trunc_toward_zero y"
    using percentage_of_pos [OF assms(1) True] by (simp add: x_def y_def)
  have q0: "0 \<le> (of_int r / of_int t :: rat)" using assms True by simp
  have q1: "(of_int r / of_int t :: rat) \<le> of_int 1" using assms True by simp
  have big: "(1::rat) < pow2 53" "(100::rat) < pow2 53" by (simp_all add: pow2_def)
  have x0: "0 \<le> x" unfolding x_def using q0 by (rule round_double_nonneg)
  have x1: "x \<le> of_int 1" unfolding x_def using q0 q1 big(1)
    by (intro round_double_le_int) auto
  have y0: "0 \<le> y" unfolding y_def using x0 by (intro round_double_nonneg) simp
  have "y \<le> of_int 100" unfolding y_def using x0 x1 big(2)
    by (intro round_double_le_int) auto
  then have y1: "y \<le> 100" by simp
  have "p = \<lfloor>y\<rfloor>" using p y0 by (simp add: trunc_nonneg)
  moreover have "0 \<le> \<lfloor>y\<rfloor>" using y0 by simp
  moreover have "\<lfloor>y\<rfloor> \<le> 100" using y1 by (simp add: floor_le_iff)
  ultimately show ?thesis by simp
qed

subsection \<open>The doubles of the examples\<close>

lemma float_25_4_eq: "float_25_4 = Fin (3574732204225331 / 140737488355328)"
  unfolding float_25_4_def by code_simp

lemma round_double_examples:
  "round_double (3574732204225331 / 140737488355328) = 3574732204225331 / 140737488355328"
  "round_double (17873661021126655 / 70368744177664) = 254"
  "round_double (17873661021126655 / 140737488355328) = 127"
  "round_double (1 / 2) = 1 / 2"
  "round_double 50 = 50"
  by code_simp+

lemma trunc_examples:
  "trunc_toward_zero (3574732204225331 / 140737488355328) = 25"
  "trunc_toward_zero 254 = 254"
  "trunc_toward_zero 127 = 127"
  "trunc_toward_zero 50 = 50"
  by code_simp+

text \<open>Width 1.0 in, initial length 10.0 in, remaining length 5.0 in.\<close>

lemma project_example:
  "project_tape_info (configuration_with (Some (Fin 1)) (Some (Fin 10))) (status_with (Fin 5)) =
     Inr \<lparr>present = True, type_mm = 25, total_mm = 254, remaining_mm = 127, percentage = 50\<rparr>"
  by (simp add: project_tape_info_def percentage_of_def int_truediv_def overflow_to_inf_def
      configuration_with_def status_with_def float_25_4_eq round_double_examples trunc_examples)

text \<open>The same tape with the sentinel \<^verbatim>\<open>-1.0\<close> as remaining length.\<close>

lemma project_example_sentinel:
  "project_tape_info (configuration_with (Some (Fin 1)) (Some (Fin 10))) (status_with (Fin (- 1))) =
     Inr no_tape"
  by (simp add: project_tape_info_def configuration_with_def status_with_def)

lemma round_double_more_examples:
  "round_double (- (3574732204225331 / 140737488355328)) = - (3574732204225331 / 140737488355328)"
  "round_double (- (3574732204225331 / 70368744177664)) = - (3574732204225331 / 70368744177664)"
  "round_double (17873661021126655 / 35184372088832) = 508"
  "round_double (- (25 / 127)) = - (7092282877748813 / 36028797018963968)"
  "round_double (- (177307071943720325 / 9007199254740992)) = - (1385211499560315 / 70368744177664)"
  "round_double 2 = 2"
  "round_double 200 = 200"
  "round_double (3574732204225331 / 9007199254740992) = 3574732204225331 / 9007199254740992"
  by code_simp+

lemma trunc_more_examples:
  "trunc_toward_zero (- (3574732204225331 / 140737488355328)) = - 25"
  "trunc_toward_zero (- (3574732204225331 / 70368744177664)) = - 50"
  "trunc_toward_zero 508 = 508"
  "trunc_toward_zero 200 = 200"
  "trunc_toward_zero (- (1385211499560315 / 70368744177664)) = - 19"
  "trunc_toward_zero (3574732204225331 / 9007199254740992) = 0"
  by code_simp+

lemmas project_eval =
  project_tape_info_def percentage_of_def int_truediv_def overflow_to_inf_def
  configuration_with_def status_with_def float_25_4_eq
  round_double_examples trunc_examples round_double_more_examples trunc_more_examples

text \<open>A negative width, \<^verbatim>\<open>-1.0\<close> in.\<close>

lemma project_example_negative_width:
  "project_tape_info (configuration_with (Some (Fin (- 1))) (Some (Fin 10))) (status_with (Fin 5)) =
     Inr \<lparr>present = True, type_mm = - 25, total_mm = 254, remaining_mm = 127, percentage = 50\<rparr>"
  by (simp add: project_eval)

text \<open>A negative remaining length other than the sentinel, \<^verbatim>\<open>-2.0\<close> in.\<close>

lemma project_example_negative_remaining:
  "project_tape_info (configuration_with (Some (Fin 1)) (Some (Fin 10))) (status_with (Fin (- 2))) =
     Inr \<lparr>present = True, type_mm = 25, total_mm = 254, remaining_mm = - 50, percentage = - 19\<rparr>"
  by (simp add: project_eval)

text \<open>A remaining length above the initial one, 20.0 in of 10.0 in.\<close>

lemma project_example_excess:
  "project_tape_info (configuration_with (Some (Fin 1)) (Some (Fin 10))) (status_with (Fin 20)) =
     Inr \<lparr>present = True, type_mm = 25, total_mm = 254, remaining_mm = 508, percentage = 200\<rparr>"
  by (simp add: project_eval)

text \<open>An initial length of 1/64 in, below one millimetre.\<close>

lemma project_example_short:
  "project_tape_info (configuration_with (Some (Fin 1)) (Some (Fin (1 / 64)))) (status_with (Fin 5)) =
     Inr \<lparr>present = True, type_mm = 25, total_mm = 0, remaining_mm = 127, percentage = 0\<rparr>"
  by (simp add: project_eval)

section \<open>Claims about the tape information\<close>

text \<open>
  C10. With a tape width of 1.0 in, an initial length of 10.0 in and a remaining length
  of 5.0 in the projection yields 25 mm, 254 mm, 127 mm and 50 percent; each millimetre
  value is the inch value times 25.4, truncated toward zero.
\<close>

theorem project_one_ten_five:
  "project_tape_info (configuration_with (Some (Fin 1)) (Some (Fin 10))) (status_with (Fin 5)) =
     Inr \<lparr>present = True, type_mm = 25, total_mm = 254, remaining_mm = 127, percentage = 50\<rparr>
   \<and> py_int (fmul (Fin 1) float_25_4) = Inr 25
   \<and> py_int (fmul (Fin 10) float_25_4) = Inr 254
   \<and> py_int (fmul (Fin 5) float_25_4) = Inr 127
   \<and> trunc_toward_zero (1 * (127 / 5)) = 25
   \<and> trunc_toward_zero (10 * (127 / 5)) = 254
   \<and> trunc_toward_zero (5 * (127 / 5)) = 127"
proof -
  have "py_int (fmul (Fin 1) float_25_4) = Inr 25"
    by (simp add: float_25_4_eq overflow_to_inf_def round_double_examples trunc_examples)
  moreover have "py_int (fmul (Fin 10) float_25_4) = Inr 254"
    by (simp add: float_25_4_eq overflow_to_inf_def round_double_examples trunc_examples)
  moreover have "py_int (fmul (Fin 5) float_25_4) = Inr 127"
    by (simp add: float_25_4_eq overflow_to_inf_def round_double_examples trunc_examples)
  moreover have "trunc_toward_zero (1 * (127 / 5)) = 25" by code_simp
  moreover have "trunc_toward_zero (10 * (127 / 5)) = 254" by code_simp
  moreover have "trunc_toward_zero (5 * (127 / 5)) = 127" by code_simp
  ultimately show ?thesis using project_example by simp
qed

text \<open>
  C3, as the specification states it: \<open>present\<close> is "width > 0 and initial length > 0
  and remaining length \<noteq> -1.0". The handler tests the two configuration attributes for
  truth, and a negative width is true: here the tape is reported present although the
  width is not positive.
\<close>

theorem present_rule_counterexample:
  "project_tape_info (configuration_with (Some (Fin (- 1))) (Some (Fin 10))) (status_with (Fin 5)) =
     Inr \<lparr>present = True, type_mm = - 25, total_mm = 254, remaining_mm = 127, percentage = 50\<rparr>
   \<and> \<not> spec_present (configuration_with (Some (Fin (- 1))) (Some (Fin 10))) (status_with (Fin 5))"
  using project_example_negative_width
  by (simp add: spec_present_def configuration_with_def status_with_def)

text \<open>
  C3, amended: whenever the projection returns, \<open>present\<close> holds exactly when the width
  and the initial length are both given and different from zero and the remaining length
  is not the sentinel \<^verbatim>\<open>-1.0\<close>; the rule of the specification implies it; and whenever
  \<open>present\<close> is false the four numeric fields are 0.
\<close>

theorem present_rule:
  assumes "project_tape_info c s = Inr t"
  shows "(present t \<longleftrightarrow>
            tape_width c \<notin> {None, Some (Fin 0)}
          \<and> tape_length_initial c \<notin> {None, Some (Fin 0)}
          \<and> tape_length_remaining s \<noteq> Fin (- 1))
       \<and> (spec_present c s \<longrightarrow> present t)
       \<and> (\<not> present t \<longrightarrow>
            type_mm t = 0 \<and> total_mm t = 0 \<and> remaining_mm t = 0 \<and> percentage t = 0)"
proof (cases "truthy (tape_width c) \<and> truthy (tape_length_initial c)
      \<and> float_ne (tape_length_remaining s) (Fin (- 1))")
  case True
  then have "present t" using project_present [OF assms] by blast
  then show ?thesis using True by (simp add: truthy_iff float_ne_Fin_iff)
next
  case False
  then have "t = no_tape" using project_absent [of c s] assms by simp
  moreover have "\<not> spec_present c s"
  proof
    assume sp: "spec_present c s"
    have "truthy x" if "float_positive x" for x
      using that by (cases x rule: float_positive.cases) auto
    then show False using sp False by (auto simp: spec_present_def)
  qed
  ultimately show ?thesis using False by (simp add: no_tape_def truthy_iff float_ne_Fin_iff)
qed

theorem present_rule_witness:
  "project_tape_info (configuration_with (Some (Fin 1)) (Some (Fin 10))) (status_with (Fin (- 1))) =
     Inr no_tape
   \<and> \<not> present no_tape
   \<and> type_mm no_tape = 0 \<and> total_mm no_tape = 0 \<and> remaining_mm no_tape = 0
   \<and> percentage no_tape = 0"
  using present_rule [OF project_example_sentinel] project_example_sentinel
  by (simp add: configuration_with_def status_with_def)

text \<open>
  C4, as the specification states it: with a positive total the percentage is the floor
  of remaining / total * 100. The handler converts with \<^verbatim>\<open>int\<close>, which truncates toward
  zero: a remaining length of -2.0 in gives -19, while the floor is -20 (of the double
  computed as well as of the exact quotient).
\<close>

theorem percentage_floor_counterexample:
  "project_tape_info (configuration_with (Some (Fin 1)) (Some (Fin 10))) (status_with (Fin (- 2))) =
     Inr \<lparr>present = True, type_mm = 25, total_mm = 254, remaining_mm = - 50, percentage = - 19\<rparr>
   \<and> \<lfloor>round_double (round_double (- 50 / 254) * 100)\<rfloor> = - 20
   \<and> \<lfloor>(- 50 / 254 * 100 :: rat)\<rfloor> = - 20"
proof -
  have "\<lfloor>round_double (round_double (- 50 / 254) * 100)\<rfloor> = - 20" by code_simp
  moreover have "\<lfloor>(- 50 / 254 * 100 :: rat)\<rfloor> = - 20" by code_simp
  ultimately show ?thesis using project_example_negative_remaining by simp
qed

text \<open>
  C4, amended: the projection never raises \<^verbatim>\<open>ZeroDivisionError\<close>; whenever it returns,
  the percentage is, for a positive total, the double remaining / total * 100 (quotient
  and product each rounded to nearest) truncated toward zero, which is its floor when
  the remaining millimetres are not negative; and it is 0 when the total is not positive.
\<close>

theorem percentage_rule:
  "(\<forall>m. project_tape_info c s \<noteq> Inl (ZeroDivisionError m))
   \<and> (\<forall>t. project_tape_info c s = Inr t \<longrightarrow>
        (0 < total_mm t \<longrightarrow>
           percentage t = trunc_toward_zero
             (round_double (round_double (of_int (remaining_mm t) / of_int (total_mm t)) * 100)))
      \<and> (0 < total_mm t \<and> 0 \<le> remaining_mm t \<longrightarrow>
           percentage t =
             \<lfloor>round_double (round_double (of_int (remaining_mm t) / of_int (total_mm t)) * 100)\<rfloor>)
      \<and> (total_mm t \<le> 0 \<longrightarrow> percentage t = 0))"
proof (intro conjI allI impI)
  fix m show "project_tape_info c s \<noteq> Inl (ZeroDivisionError m)"
    by (rule project_no_zero_division)
next
  fix t assume t: "project_tape_info c s = Inr t"
  have pct: "percentage_of (remaining_mm t) (total_mm t) = Inr (percentage t)"
  proof (cases "truthy (tape_width c) \<and> truthy (tape_length_initial c)
      \<and> float_ne (tape_length_remaining s) (Fin (- 1))")
    case True
    then show ?thesis using project_present [OF t] by blast
  next
    case False
    then have "t = no_tape" using project_absent [of c s] t by simp
    then show ?thesis by (simp add: no_tape_def percentage_of_def)
  qed
  {
    assume pos: "0 < total_mm t"
    show trunc: "percentage t = trunc_toward_zero
        (round_double (round_double (of_int (remaining_mm t) / of_int (total_mm t)) * 100))"
      using pct pos by (rule percentage_of_pos)
  }
  {
    assume pos: "0 < total_mm t \<and> 0 \<le> remaining_mm t"
    have "0 \<le> (of_int (remaining_mm t) / of_int (total_mm t) :: rat)" using pos by simp
    then have "0 \<le> round_double (of_int (remaining_mm t) / of_int (total_mm t))"
      by (rule round_double_nonneg)
    then have "0 \<le> round_double (round_double (of_int (remaining_mm t) / of_int (total_mm t)) * 100)"
      by (intro round_double_nonneg) simp
    then show "percentage t =
        \<lfloor>round_double (round_double (of_int (remaining_mm t) / of_int (total_mm t)) * 100)\<rfloor>"
      using percentage_of_pos [OF pct] pos by (simp add: trunc_nonneg)
  }
  {
    assume "total_mm t \<le> 0"
    then show "percentage t = 0" using pct by (simp add: percentage_of_def)
  }
qed

theorem percentage_rule_witness:
  "project_tape_info (configuration_with (Some (Fin 1)) (Some (Fin 10))) (status_with (Fin 5)) =
     Inr \<lparr>present = True, type_mm = 25, total_mm = 254, remaining_mm = 127, percentage = 50\<rparr>
   \<and> \<lfloor>round_double (round_double (127 / 254) * 100)\<rfloor> = 50
   \<and> project_tape_info (configuration_with (Some (Fin 1)) (Some (Fin (1 / 64)))) (status_with (Fin 5)) =
     Inr \<lparr>present = True, type_mm = 25, total_mm = 0, remaining_mm = 127, percentage = 0\<rparr>"
  using percentage_rule [of "configuration_with (Some (Fin 1)) (Some (Fin 10))" "status_with (Fin 5)"]
    percentage_rule [of "configuration_with (Some (Fin 1)) (Some (Fin (1 / 64)))" "status_with (Fin 5)"]
    project_example project_example_short
  by simp

text \<open>
  C8, as the specification states it: the percentage always lies between 0 and 100.
  Nothing in the handler clamps it: 20.0 in remaining of 10.0 in gives 200, and -2.0 in
  remaining gives -19.
\<close>

theorem percentage_range_counterexample:
  "project_tape_info (configuration_with (Some (Fin 1)) (Some (Fin 10))) (status_with (Fin 20)) =
     Inr \<lparr>present = True, type_mm = 25, total_mm = 254, remaining_mm = 508, percentage = 200\<rparr>
   \<and> \<not> (200 \<le> (100::int))
   \<and> project_tape_info (configuration_with (Some (Fin 1)) (Some (Fin 10))) (status_with (Fin (- 2))) =
     Inr \<lparr>present = True, type_mm = 25, total_mm = 254, remaining_mm = - 50, percentage = - 19\<rparr>
   \<and> \<not> (0 \<le> (- 19::int))"
  using project_example_excess project_example_negative_remaining by simp

text \<open>
  C8, amended: whenever the projection returns and the remaining millimetres lie between
  0 and the total millimetres, the percentage is an integer between 0 and 100.
\<close>

theorem percentage_range:
  assumes "project_tape_info c s = Inr t"
    and "0 \<le> remaining_mm t" and "remaining_mm t \<le> total_mm t"
  shows "0 \<le> percentage t \<and> percentage t \<le> 100"
proof (cases "truthy (tape_width c) \<and> truthy (tape_length_initial c)
      \<and> float_ne (tape_length_remaining s) (Fin (- 1))")
  case True
  then have "percentage_of (remaining_mm t) (total_mm t) = Inr (percentage t)"
    using project_present [OF assms(1)] by blast
  then show ?thesis using assms(2,3) by (rule percentage_of_bounds)
next
  case False
  then have "t = no_tape" using project_absent [of c s] assms(1) by simp
  then show ?thesis by (simp add: no_tape_def)
qed

theorem percentage_range_witness:
  "project_tape_info (configuration_with (Some (Fin 1)) (Some (Fin 10))) (status_with (Fin 5)) =
     Inr \<lparr>present = True, type_mm = 25, total_mm = 254, remaining_mm = 127, percentage = 50\<rparr>
   \<and> (0::int) \<le> 127 \<and> (127::int) \<le> 254 \<and> (0::int) \<le> 50 \<and> (50::int) \<le> 100"
  using percentage_range [OF project_example] project_example by simp

section \<open>Facts about the multipart decoder\<close>

lemma find_sub_None_iff: "find_sub sub s = None \<longleftrightarrow> \<not> sublist sub s"
  by (induction s) (auto simp: sublist_Cons_right)

lemma py_in_iff_sublist: "py_in sub s \<longleftrightarrow> sublist sub s"
  by (simp add: py_in_def find_sub_None_iff)

lemma split_on_not_Nil: "split_on sep s \<noteq> []"
  by (subst split_on.simps) (simp split: option.splits)

lemma split_on_found:
  assumes "find_sub sep s = Some i" and "sep \<noteq> []"
  shows "split_on sep s = take i s # split_on sep (drop (i + length sep) s)"
  using assms by (subst split_on.simps) simp


lemma split_on_length:
  assumes "py_in sep s" and "sep \<noteq> []"
  shows "1 < length (split_on sep s)"
proof -
  from assms(1) obtain i where i: "find_sub sep s = Some i" by (auto simp: py_in_def)
  have "0 < length (split_on sep (drop (i + length sep) s))"
    using split_on_not_Nil [of sep "drop (i + length sep) s"] by simp
  then show ?thesis by (simp add: split_on_found [OF i assms(2)])
qed

lemma encode_delimiter_not_Nil: "encode (''--'' @ boundary) \<noteq> []"
  by (simp add: encode_def encode_char_def)

lemma extract_boundary_Inr:
  assumes "py_in ''boundary='' content_type"
  shows "\<exists>boundary. extract_boundary content_type = Inr boundary"
proof -
  have "1 < length (split_on ''boundary='' content_type)"
    using assms by (rule split_on_length) simp
  then obtain b0 where "py_index (split_on ''boundary='' content_type) 1 = Inr b0"
    by (simp add: py_index_def)
  then show ?thesis using assms by (simp add: extract_boundary_def Let_def)
qed

lemma py_split_delimiter:
  "py_split (encode (''--'' @ boundary)) body = Inr (split_on (encode (''--'' @ boundary)) body)"
  using encode_delimiter_not_Nil [of boundary] by (simp only: py_split_def if_False)

text \<open>
  C9. The decoder raises exactly when the content type holds no \<^verbatim>\<open>boundary=\<close>, and then it
  is the \<^verbatim>\<open>ValueError\<close> of the missing boundary; for every content type that holds one and
  every body it returns a decoded form.
\<close>

theorem decode_raises_iff_no_boundary:
  "(\<not> sublist ''boundary='' content_type \<longrightarrow>
      parse_multipart_form_data content_type body =
        Inl (ValueError ''No boundary found in content type''))
   \<and> (sublist ''boundary='' content_type \<longrightarrow>
      (\<exists>form fls. parse_multipart_form_data content_type body = Inr (form, fls)))"
proof (intro conjI impI)
  assume "\<not> sublist ''boundary='' content_type"
  then have "extract_boundary content_type = Inl (ValueError ''No boundary found in content type'')"
    by (simp add: extract_boundary_def py_in_iff_sublist)
  then show "parse_multipart_form_data content_type body =
      Inl (ValueError ''No boundary found in content type'')"
    by (simp add: parse_multipart_form_data_def)
next
  assume "sublist ''boundary='' content_type"
  then have "py_in ''boundary='' content_type" by (simp add: py_in_iff_sublist)
  then obtain boundary where b: "extract_boundary content_type = Inr boundary"
    using extract_boundary_Inr by blast
  obtain form fls where
    "foldl parse_part (Map.empty, Map.empty)
       (py_slice (split_on (encode (''--'' @ boundary)) body) 1 (- 1)) = (form, fls)"
    by (rule prod.exhaust)
  then have "parse_multipart_form_data content_type body = Inr (form, fls)"
    by (simp only: parse_multipart_form_data_def b py_split_delimiter sum.case)
  then show "\<exists>form fls. parse_multipart_form_data content_type body = Inr (form, fls)"
    by blast
qed

theorem decode_raises_iff_no_boundary_witness:
  "\<not> sublist ''boundary='' ''multipart/form-data''
   \<and> parse_multipart_form_data ''multipart/form-data'' (one_part_body (''name='' @ quoted ''mode'') ''vivid'') =
       Inl (ValueError ''No boundary found in content type'')
   \<and> sublist ''boundary='' ''multipart/form-data; boundary=X''
   \<and> (\<exists>form fls. parse_multipart_form_data ''multipart/form-data; boundary=X''
          (one_part_body (''name='' @ quoted ''mode'') ''vivid'') = Inr (form, fls))"
proof -
  have absent: "\<not> sublist ''boundary='' ''multipart/form-data''"
    by (simp add: py_in_iff_sublist [symmetric] py_in_def)
  have found: "sublist ''boundary='' ''multipart/form-data; boundary=X''"
    by (simp add: py_in_iff_sublist [symmetric] py_in_def)
  show ?thesis
    using absent found
      decode_raises_iff_no_boundary [of "''multipart/form-data''"
        "one_part_body (''name='' @ quoted ''mode'') ''vivid''"]
      decode_raises_iff_no_boundary [of "''multipart/form-data; boundary=X''"
        "one_part_body (''name='' @ quoted ''mode'') ''vivid''"]
    by blast
qed

subsection \<open>Searching a header line\<close>






















section \<open>Claims about the parts of a form\<close>

text \<open>A field \<^verbatim>\<open>mode\<close> with the content \<^verbatim>\<open>vivid\<close> decodes to that field.\<close>

lemma decode_mode_vivid:
  "decoded_field
     (parse_multipart_form_data ''multipart/form-data; boundary=X''
        (one_part_body (''name='' @ quoted ''mode'') ''vivid''))
     (text_of ''mode'') = Some (text_of ''vivid'')"
  by code_simp

text \<open>
  C5 states that one trailing CRLF is removed from the content and that further CR or LF
  bytes of the payload stay. The source removes them with \<^verbatim>\<open>content.rstrip(b'\r\n')\<close>,
  which takes its argument as a set of bytes: a field whose payload is \<^verbatim>\<open>a\<close> followed by
  a line feed is recorded as \<^verbatim>\<open>a\<close>, and a file whose payload ends in a line feed and a
  carriage return loses both.
\<close>

theorem payload_line_ends_are_stripped:
  "decoded_field
     (parse_multipart_form_data ''multipart/form-data; boundary=X''
        (one_part_body (''name='' @ quoted ''f'') (''a'' @ [LF])))
     (text_of ''f'') = Some (text_of ''a'')
   \<and> decoded_file
     (parse_multipart_form_data ''multipart/form-data; boundary=X''
        (one_part_body (''name='' @ quoted ''image'' @ ''; filename='' @ quoted ''a.jpg'')
           ([CHR 0xFF, CHR 0xD9, LF, CR])))
     (text_of ''image'') = Some \<lparr>filename = text_of ''a.jpg'', content = [CHR 0xFF, CHR 0xD9]\<rparr>"
  by code_simp




text \<open>
  C7 states that a part without a name is dropped, also when its header carries only a
  filename attribute. The source looks for \<^verbatim>\<open>name="\<close> anywhere in the line, and finds it
  inside \<^verbatim>\<open>filename="\<close>: the part is recorded as a file under its filename.
\<close>

theorem filename_only_part_is_recorded:
  "decoded_file
     (parse_multipart_form_data ''multipart/form-data; boundary=X''
        (one_part_body (''filename='' @ quoted ''a.jpg'') ''abc''))
     (text_of ''a.jpg'') = Some \<lparr>filename = text_of ''a.jpg'', content = ''abc''\<rparr>"
  by code_simp

section \<open>Facts about the request handlers\<close>


lemma print_try_trace:
  "trace (snd (print_try w ip mode cut_mode img s)) =
     trace s @ Connect ip
     # (if isl (connect_result w) then []
        else GetStatus
          # (if isl (get_status_result w) then []
             else OpenTemp
               # (if isl (open_temp_result w) then []
                  else PrintJpeg img mode cut_mode
                    # (if isl (print_jpeg_result w) then []
                       else Close
                         # (if isl (close_result w) then [] else [SendSuccess])))))"
  by (auto simp: print_try_def then_do_def call_def returns_def split: sum.splits prod.splits)

lemma print_try_temp: "temp_exists (snd (print_try w ip mode cut_mode img s)) = temp_exists s"
  by (auto simp: print_try_def then_do_def call_def returns_def split: sum.splits prod.splits)

lemma finally_unlink_fst: "fst (finally_unlink w m s) = fst (m s)"
  by (simp add: finally_unlink_def split: prod.splits)

lemma finally_unlink_trace: "trace (snd (finally_unlink w m s)) = trace (snd (m s)) @ [Unlink]"
  by (simp add: finally_unlink_def split: prod.splits)

lemma finally_unlink_temp:
  "temp_exists (snd (finally_unlink w m s)) =
     (if isl (unlink_result w) then temp_exists (snd (m s)) else False)"
  by (simp add: finally_unlink_def split: prod.splits sum.splits)

text \<open>
  Either the run gets to the inner block, with the temporary file written, or it ends
  before: then the write has raised or was never made, and no connection is opened.
\<close>

lemma print_request_try_cases:
  "(\<exists>img ip mode cut_mode.
       write_temp_result w = Inr ()
     \<and> print_request_try w ctype initial_state =
         finally_unlink w (print_try w ip mode cut_mode img)
           \<lparr>trace = [CreateTemp, WriteTemp img], temp_exists = True\<rparr>)
   \<or> ((isl (write_temp_result w)
        \<or> (\<forall>img. WriteTemp img \<notin> set (trace (snd (print_request_try w ctype initial_state)))))
      \<and> (\<forall>ip. Connect ip \<notin> set (trace (snd (print_request_try w ctype initial_state))))
      \<and> Close \<notin> set (trace (snd (print_request_try w ctype initial_state))))"
  by (auto simp: print_request_try_def then_do_def call_def computes_def raises_def
      create_temp_def initial_state_def Let_def split: sum.splits prod.splits option.splits)

lemma handle_print_request_snd:
  "snd (handle_print_request w ctype s) = snd (print_request_try w ctype s)"
  by (simp add: handle_print_request_def split: prod.splits sum.splits)

lemma handle_print_request_fst:
  "fst (handle_print_request w ctype s) =
     (case fst (print_request_try w ctype s) of Inl e \<Rightarrow> PrintFailed (str_of e) | Inr r \<Rightarrow> r)"
  by (simp add: handle_print_request_def split: prod.splits sum.splits)

lemma print_try_unlink_irrelevant:
  "print_try (w\<lparr>unlink_result := u\<rparr>) = print_try w"
  by (rule ext)+ (simp add: print_try_def)

lemma print_request_try_unlink_irrelevant:
  "fst (print_request_try (w\<lparr>unlink_result := u\<rparr>) ctype s) = fst (print_request_try w ctype s)"
  by (auto simp: print_request_try_def then_do_def call_def computes_def raises_def
      create_temp_def Let_def finally_unlink_def print_try_unlink_irrelevant
      split: sum.splits prod.splits option.splits)


subsection \<open>Example runs\<close>


text \<open>The status request of a printer that answers every call.\<close>

lemma status_run_all_return:
  "handle_printer_status_request all_return None initial_state =
     (StatusOK ''VC-500W'' ''A1'' ''IDLE'' ''READY'' ''NONE''
        \<lparr>present = True, type_mm = 25, total_mm = 254, remaining_mm = 127, percentage = 50\<rparr>,
      \<lparr>trace = [Connect default_ip, GetConfiguration, GetStatus, Close, SendSuccess],
       temp_exists = False\<rparr>)"
  using project_example
  by (simp add: handle_printer_status_request_def printer_status_try_def then_do_def call_def
      computes_def returns_def all_return_def initial_state_def configuration_with_def
      status_with_def)

text \<open>The decoded form of the print request.\<close>

lemma print_body_decoded:
  "decoded_field (parse_multipart_form_data ''multipart/form-data; boundary=X'' print_body)
     (text_of ''printer_ip'') = Some (text_of ''10.0.0.5'')
   \<and> decoded_field (parse_multipart_form_data ''multipart/form-data; boundary=X'' print_body)
     (text_of ''mode'') = Some (text_of ''pastel'')
   \<and> decoded_field (parse_multipart_form_data ''multipart/form-data; boundary=X'' print_body)
     (text_of ''cut'') = Some (text_of ''each'')
   \<and> decoded_file (parse_multipart_form_data ''multipart/form-data; boundary=X'' print_body)
     (text_of ''image'') =
       Some \<lparr>filename = text_of ''a.jpg'', content = [CHR 0xFF, CHR 0xD8, CHR 0xD9]\<rparr>"
  by code_simp

text \<open>The print request with a printer whose \<^verbatim>\<open>print_jpeg\<close> raises, and an \<^verbatim>\<open>unlink\<close> that returns.\<close>

lemma print_run_print_fails:
  "handle_print_request print_fails ''multipart/form-data; boundary=X'' initial_state =
     (PrintFailed ''printer offline'',
      \<lparr>trace = [CreateTemp, WriteTemp [CHR 0xFF, CHR 0xD8, CHR 0xD9],
                Connect (text_of ''10.0.0.5''), GetStatus, OpenTemp,
                PrintJpeg [CHR 0xFF, CHR 0xD8, CHR 0xD9] (text_of ''pastel'') (text_of ''each''),
                Unlink],
       temp_exists = False\<rparr>)"
proof -
  obtain form fls where p:
    "parse_multipart_form_data ''multipart/form-data; boundary=X'' print_body = Inr (form, fls)"
    using print_body_decoded by (cases "parse_multipart_form_data ''multipart/form-data; boundary=X'' print_body")
      (auto simp: decoded_field_def)
  have f: "form (text_of ''printer_ip'') = Some (text_of ''10.0.0.5'')"
    "form (text_of ''mode'') = Some (text_of ''pastel'')"
    "form (text_of ''cut'') = Some (text_of ''each'')"
    "fls (text_of ''image'') =
       Some \<lparr>filename = text_of ''a.jpg'', content = [CHR 0xFF, CHR 0xD8, CHR 0xD9]\<rparr>"
    using print_body_decoded by (simp_all add: p decoded_field_def decoded_file_def)
  show ?thesis
    by (simp add: handle_print_request_def print_request_try_def then_do_def call_def
        computes_def raises_def returns_def create_temp_def finally_unlink_def print_try_def
        dict_get_def print_fails_def all_return_def initial_state_def p f status_with_def)
qed

section \<open>Claims about the handlers\<close>




text \<open>
  C2. Whenever a print request has written the image to the temporary file, the handler
  ends with one call of \<^verbatim>\<open>unlink\<close>, made after everything else, whatever connecting, the
  status query and \<^verbatim>\<open>print_jpeg\<close> do; the file is gone when that call returns; and the
  response is the same whatever that call does.
\<close>

theorem temporary_file_is_removed:
  assumes "WriteTemp img \<in> set (trace (snd (handle_print_request w ctype initial_state)))"
    and "write_temp_result w = Inr ()"
  shows "(\<exists>events. trace (snd (handle_print_request w ctype initial_state)) =
              CreateTemp # WriteTemp img # events @ [Unlink]
            \<and> Unlink \<notin> set events)
       \<and> (\<not> isl (unlink_result w) \<longrightarrow>
            \<not> temp_exists (snd (handle_print_request w ctype initial_state)))
       \<and> (\<forall>u. fst (handle_print_request (w\<lparr>unlink_result := u\<rparr>) ctype initial_state) =
                fst (handle_print_request w ctype initial_state))"
proof -
  from assms obtain img' ip mode cut_mode where run:
    "print_request_try w ctype initial_state =
       finally_unlink w (print_try w ip mode cut_mode img')
         \<lparr>trace = [CreateTemp, WriteTemp img'], temp_exists = True\<rparr>"
    using print_request_try_cases [of w ctype] by (auto simp: handle_print_request_snd)
  define events where "events = drop 2 (trace (snd (print_try w ip mode cut_mode img'
      \<lparr>trace = [CreateTemp, WriteTemp img'], temp_exists = True\<rparr>)))"
  have tr: "trace (snd (handle_print_request w ctype initial_state)) =
      CreateTemp # WriteTemp img' # events @ [Unlink]"
    by (simp add: handle_print_request_snd run finally_unlink_trace print_try_trace events_def)
  have no_unlink: "Unlink \<notin> set events"
    by (simp add: events_def print_try_trace)
  have "WriteTemp img \<in> set (CreateTemp # WriteTemp img' # events @ [Unlink])"
    using assms(1) tr by simp
  moreover have "WriteTemp img \<notin> set events"
    by (simp add: events_def print_try_trace)
  ultimately have same: "img' = img" by auto
  have gone: "\<not> isl (unlink_result w) \<longrightarrow>
      \<not> temp_exists (snd (handle_print_request w ctype initial_state))"
    by (simp add: handle_print_request_snd run finally_unlink_temp)
  have resp: "\<forall>u. fst (handle_print_request (w\<lparr>unlink_result := u\<rparr>) ctype initial_state) =
      fst (handle_print_request w ctype initial_state)"
    by (simp add: handle_print_request_fst print_request_try_unlink_irrelevant)
  show ?thesis using tr no_unlink same gone resp by blast
qed

theorem temporary_file_is_removed_witness:
  "WriteTemp [CHR 0xFF, CHR 0xD8, CHR 0xD9] \<in> set (trace (snd (handle_print_request print_fails
        ''multipart/form-data; boundary=X'' initial_state)))
   \<and> (\<exists>events. trace (snd (handle_print_request print_fails
        ''multipart/form-data; boundary=X'' initial_state)) =
          CreateTemp # WriteTemp [CHR 0xFF, CHR 0xD8, CHR 0xD9] # events @ [Unlink])
   \<and> \<not> temp_exists (snd (handle_print_request print_fails
        ''multipart/form-data; boundary=X'' initial_state))
   \<and> fst (handle_print_request
        (print_fails\<lparr>unlink_result := Inl (OtherError ''permission denied'')\<rparr>)
        ''multipart/form-data; boundary=X'' initial_state) = PrintFailed ''printer offline''"
proof -
  have written: "WriteTemp [CHR 0xFF, CHR 0xD8, CHR 0xD9] \<in> set (trace (snd (handle_print_request
        print_fails ''multipart/form-data; boundary=X'' initial_state)))"
    by (simp add: print_run_print_fails)
  have ok: "write_temp_result print_fails = Inr ()" "\<not> isl (unlink_result print_fails)"
    by (simp_all add: print_fails_def all_return_def)
  have r: "fst (handle_print_request print_fails ''multipart/form-data; boundary=X'' initial_state) =
      PrintFailed ''printer offline''"
    by (simp add: print_run_print_fails)
  from temporary_file_is_removed [OF written ok(1)] ok(2) r written
  show ?thesis by auto
qed

end
